theory Spec2Isabelle
  imports Complex_Main "HOL-Library.Word"
begin

section \<open>The voice endpoint (api/voice.js)\<close>

text \<open>
  The module exports one asynchronous handler. It reads three environment variables once,
  drains the request stream, and then either answers by itself or performs one
  \<^verbatim>\<open>fetch\<close> to an upstream server and relays the result. The embedding below follows
  the source line by line. The JavaScript built-ins the handler calls
  (\<^verbatim>\<open>Buffer.toString\<close>, \<^verbatim>\<open>JSON.parse\<close>, \<^verbatim>\<open>fetch\<close>) are not code of the module: they
  are parameters of the model, collected in the record \<open>platform\<close>, so every theorem
  holds for whatever these built-ins compute.
\<close>

subsection \<open>JavaScript values\<close>

text \<open>
  A \<^verbatim>\<open>Buffer\<close> is a list of bytes. A JavaScript string is a list of code units; the
  handler only compares, concatenates and truncates strings, and lower-cases one header
  value, which Node delivers as a Latin-1 string, so \<open>char\<close> stands for a code unit.
\<close>

type_synonym buffer = "8 word list"

text \<open>
  A number produced by \<^verbatim>\<open>JSON.parse\<close> is a double that is never NaN. The handler only
  tests it for truthiness, and both zeros are falsy, so a finite double is kept as the
  rational it denotes.
\<close>

datatype js_number = Finite rat | PosInfinity | NegInfinity

datatype jsval =
    JUndefined
  | JNull
  | JBool bool
  | JNum js_number
  | JStr string
  | JArr "jsval list"
  | JObj "(string \<times> jsval) list"

text \<open>A thrown \<^verbatim>\<open>Error\<close> object: its \<^verbatim>\<open>name\<close> and its \<^verbatim>\<open>message\<close>.\<close>

datatype js_error = JsError string string

text \<open>\<^verbatim>\<open>String(err)\<close>, that is \<^verbatim>\<open>Error.prototype.toString\<close>.\<close>

fun String_err :: "js_error \<Rightarrow> string" where
  "String_err (JsError name msg) =
     (if msg = [] then name else if name = [] then msg else name @ '': '' @ msg)"

text \<open>\<^verbatim>\<open>!!v\<close>: the falsy values are undefined, null, false, both zeros and the empty string.\<close>

fun truthy :: "jsval \<Rightarrow> bool" where
  "truthy JUndefined = False"
| "truthy JNull = False"
| "truthy (JBool b) = b"
| "truthy (JNum (Finite q)) = (q \<noteq> 0)"
| "truthy (JNum PosInfinity) = True"
| "truthy (JNum NegInfinity) = True"
| "truthy (JStr s) = (s \<noteq> [])"
| "truthy (JArr vs) = True"
| "truthy (JObj kvs) = True"

text \<open>\<^verbatim>\<open>x || d\<close> for an optional string \<open>x\<close>: undefined and the empty string are falsy.\<close>

fun or_default :: "string option \<Rightarrow> string \<Rightarrow> string" where
  "or_default None d = d"
| "or_default (Some s) d = (if s = [] then d else s)"

text \<open>
  \<^verbatim>\<open>String.prototype.toLowerCase\<close> on a Latin-1 string: A to Z, and the upper-case
  letters U+00C0 to U+00DE without the multiplication sign U+00D7, move up by 32.
\<close>

definition toLowerCase_char :: "char \<Rightarrow> char" where
  "toLowerCase_char c =
     (let n = (of_char c :: nat)
      in if (65 \<le> n \<and> n \<le> 90) \<or> (192 \<le> n \<and> n \<le> 222 \<and> n \<noteq> 215)
         then char_of (n + 32) else c)"

definition toLowerCase :: "string \<Rightarrow> string" where
  "toLowerCase s = map toLowerCase_char s"

text \<open>\<^verbatim>\<open>s.includes(t)\<close>: \<open>t\<close> occurs in \<open>s\<close> as a contiguous substring.\<close>

fun str_includes :: "string \<Rightarrow> string \<Rightarrow> bool" where
  "str_includes [] t = (t = [])"
| "str_includes (c # cs) t = (take (length t) (c # cs) = t \<or> str_includes cs t)"

text \<open>\<^verbatim>\<open>s.substring(0, n)\<close>.\<close>

definition substring0 :: "nat \<Rightarrow> string \<Rightarrow> string" where
  "substring0 n s = take n s"

text \<open>\<^verbatim>\<open>s.replace(/\/$/, '')\<close>: one slash at the very end of the string is removed.\<close>

definition strip_trailing_slash :: "string \<Rightarrow> string" where
  "strip_trailing_slash s = (if s \<noteq> [] \<and> last s = CHR ''/'' then butlast s else s)"

subsection \<open>Configuration (lines 14 to 16)\<close>

record env =
  env_RVC_SERVER_URL :: "string option"
  env_GEMINI_API_KEY :: "string option"
  env_GEMINI_TTS_URL :: "string option"

definition RVC_SERVER_URL :: "env \<Rightarrow> string" where
  "RVC_SERVER_URL e = or_default (env_RVC_SERVER_URL e) ''''"

definition GEMINI_API_KEY :: "env \<Rightarrow> string" where
  "GEMINI_API_KEY e = or_default (env_GEMINI_API_KEY e) ''''"

definition GEMINI_TTS_URL :: "env \<Rightarrow> string" where
  "GEMINI_TTS_URL e =
     or_default (env_GEMINI_TTS_URL e)
       ''https://api.generativeai.googleapis.com/v1beta2/speech:generate''"

subsection \<open>Requests, responses and the outside world\<close>

text \<open>
  The inbound request: \<^verbatim>\<open>req.method\<close>, the value of
  \<^verbatim>\<open>req.headers['content-type']\<close> (\<open>None\<close> when the header is absent), the
  chunks its stream delivers, and the error with which the stream breaks off after them,
  if it does (the client aborts the upload, the connection is reset).
\<close>

record request =
  req_method :: string
  content_type :: "string option"
  chunks :: "buffer list"
  stream_error :: "js_error option"

text \<open>
  The body handed to \<^verbatim>\<open>fetch\<close>: the text \<^verbatim>\<open>JSON.stringify(v)\<close>, kept as the value
  \<open>v\<close> it serialises, or a buffer sent as it is.
\<close>

datatype fetch_body = JSON_stringify jsval | Raw buffer

record fetch_request =
  url :: string
  fetch_method :: string
  fetch_headers :: "(string \<times> string) list"
  body :: fetch_body

text \<open>
  What \<^verbatim>\<open>fetch\<close> resolves to: the status and the outcomes of \<^verbatim>\<open>r.text()\<close> and
  \<^verbatim>\<open>r.arrayBuffer()\<close>, each of which may reject.
\<close>

record fetch_response =
  r_status :: nat
  r_text :: "js_error + string"
  r_arrayBuffer :: "js_error + buffer"

text \<open>\<^verbatim>\<open>r.ok\<close>: the status is in the range 200 to 299.\<close>

definition ok :: "fetch_response \<Rightarrow> bool" where
  "ok r = (200 \<le> r_status r \<and> r_status r \<le> 299)"

record platform =
  toString_utf8 :: "buffer \<Rightarrow> string"
  JSON_parse :: "string \<Rightarrow> js_error + jsval"
  fetch :: "fetch_request \<Rightarrow> js_error + fetch_response"

text \<open>
  What the handler sends back: \<^verbatim>\<open>res.status(n).json(obj)\<close> with the fields of
  \<open>obj\<close>, or \<^verbatim>\<open>res.status(n).send(buf)\<close>, after the headers given to
  \<^verbatim>\<open>res.setHeader\<close>.
\<close>

datatype payload = Json "(string \<times> string) list" | Send buffer

record response =
  status :: nat
  headers :: "(string \<times> string) list"
  payload :: payload

text \<open>
  The effects of one invocation, in order. Each \<^verbatim>\<open>fetch\<close> is labelled with the call
  that made it: line 51, line 78 or line 114.
\<close>

datatype call_site = RVC_synth | Gemini_TTS | RVC_audio

datatype log_arg = LStr string | LNum nat | LErr js_error

datatype event =
    ReadBody
  | Fetch call_site fetch_request
  | ConsoleError "log_arg list"

text \<open>A computation returns a value or throws, and leaves a trace of effects.\<close>

type_synonym 'a io = "(js_error + 'a) \<times> event list"

definition return_io :: "'a \<Rightarrow> 'a io" where
  "return_io x = (Inr x, [])"

definition await :: "js_error + 'a \<Rightarrow> 'a io" where
  "await x = (x, [])"

definition emit :: "event \<Rightarrow> unit io" where
  "emit ev = (Inr (), [ev])"

definition bind_io :: "'a io \<Rightarrow> ('a \<Rightarrow> 'b io) \<Rightarrow> 'b io" where
  "bind_io m f =
     (case m of
        (Inl e, t) \<Rightarrow> (Inl e, t)
      | (Inr a, t) \<Rightarrow> (case f a of (r, t') \<Rightarrow> (r, t @ t')))"

definition try_catch :: "'a io \<Rightarrow> (js_error \<Rightarrow> 'a io) \<Rightarrow> 'a io" where
  "try_catch m h =
     (case m of
        (Inl e, t) \<Rightarrow> (case h e of (r, t') \<Rightarrow> (r, t @ t'))
      | (Inr a, t) \<Rightarrow> (Inr a, t))"

definition seq_io :: "unit io \<Rightarrow> 'b io \<Rightarrow> 'b io" where
  "seq_io m k = bind_io m (\<lambda>_. k)"

subsection \<open>The handler\<close>

definition json_response :: "nat \<Rightarrow> (string \<times> string) list \<Rightarrow> response" where
  "json_response n obj = \<lparr>status = n, headers = [], payload = Json obj\<rparr>"

definition audio_response :: "buffer \<Rightarrow> response" where
  "audio_response ab =
     \<lparr>status = 200, headers = [(''Content-Type'', ''audio/wav'')], payload = Send ab\<rparr>"

definition throw_io :: "js_error \<Rightarrow> 'a io" where
  "throw_io err = (Inl err, [])"

text \<open>
  Lines 18 to 22: every chunk is pushed and, when the stream ends, the chunks are
  concatenated. When the stream breaks off, \<^verbatim>\<open>for await\<close> throws its error and
  nothing is returned.
\<close>

definition readRawRequest :: "request \<Rightarrow> buffer io" where
  "readRawRequest req =
     seq_io (emit ReadBody)
       (case stream_error req of
          None \<Rightarrow> return_io (concat (chunks req))
        | Some err \<Rightarrow> throw_io err)"

definition call_fetch :: "platform \<Rightarrow> call_site \<Rightarrow> fetch_request \<Rightarrow> fetch_response io" where
  "call_fetch p site q = seq_io (emit (Fetch site q)) (await (fetch p q))"

text \<open>Line 31.\<close>

definition contentType :: "request \<Rightarrow> string" where
  "contentType req = toLowerCase (or_default (content_type req) '''')"

text \<open>Line 38.\<close>

definition bodyText :: "platform \<Rightarrow> buffer \<Rightarrow> string" where
  "bodyText p rawBuffer =
     (let s = toString_utf8 p rawBuffer in if s = [] then ''{}'' else s)"

text \<open>
  Line 40: \<^verbatim>\<open>const { text, language = 'en', mode = 'cloned' } = body\<close>. Destructuring
  null (or undefined) throws a TypeError. A property of an object is its own property of
  that name, else undefined, as \<^verbatim>\<open>Object.prototype\<close> has none of the three names; nor
  have the prototypes of booleans, numbers, strings and arrays. A default applies when
  the value read is undefined. The list of a \<open>JObj\<close> holds the own properties of the
  object, whose names are distinct. The message of the TypeError is the wording of V8;
  the handler only passes it on.
\<close>

definition get_property :: "(string \<times> jsval) list \<Rightarrow> string \<Rightarrow> jsval" where
  "get_property kvs k = (case map_of kvs k of None \<Rightarrow> JUndefined | Some v \<Rightarrow> v)"

definition with_default :: "jsval \<Rightarrow> jsval \<Rightarrow> jsval" where
  "with_default v d = (if v = JUndefined then d else v)"

definition destructure_error :: "string \<Rightarrow> js_error" where
  "destructure_error what =
     JsError ''TypeError''
       (''Cannot destructure property 'text' of 'body' as it is '' @ what @ ''.'')"

fun destructure :: "jsval \<Rightarrow> js_error + (jsval \<times> jsval \<times> jsval)" where
  "destructure JNull = Inl (destructure_error ''null'')"
| "destructure JUndefined = Inl (destructure_error ''undefined'')"
| "destructure (JObj kvs) =
     Inr (get_property kvs ''text'',
          with_default (get_property kvs ''language'') (JStr ''en''),
          with_default (get_property kvs ''mode'') (JStr ''cloned''))"
| "destructure v = Inr (JUndefined, JStr ''en'', JStr ''cloned'')"

definition synthesize_url :: "env \<Rightarrow> string" where
  "synthesize_url e = strip_trailing_slash (RVC_SERVER_URL e) @ ''/synthesize''"

text \<open>Lines 51 to 67.\<close>

definition rvc_synth :: "env \<Rightarrow> platform \<Rightarrow> jsval \<Rightarrow> jsval \<Rightarrow> response io" where
  "rvc_synth e p text language =
     bind_io (call_fetch p RVC_synth
        \<lparr>url = synthesize_url e,
         fetch_method = ''POST'',
         fetch_headers = [(''Content-Type'', ''application/json'')],
         body = JSON_stringify (JObj [(''text'', text), (''language'', language)])\<rparr>) (\<lambda>r.
     if \<not> ok r then
       bind_io (await (r_text r)) (\<lambda>errText.
       seq_io (emit (ConsoleError [LStr ''RVC synth error:'', LNum (r_status r), LStr errText]))
         (return_io (json_response 502
            [(''error'', ''RVC synth failed''), (''details'', substring0 200 errText)])))
     else
       bind_io (await (r_arrayBuffer r)) (\<lambda>ab.
       return_io (audio_response ab)))"

text \<open>Lines 78 to 102.\<close>

definition gemini_tts :: "env \<Rightarrow> platform \<Rightarrow> jsval \<Rightarrow> response io" where
  "gemini_tts e p text =
     bind_io (call_fetch p Gemini_TTS
        \<lparr>url = GEMINI_TTS_URL e,
         fetch_method = ''POST'',
         fetch_headers =
           [(''Content-Type'', ''application/json''),
            (''Authorization'', ''Bearer '' @ GEMINI_API_KEY e)],
         body = JSON_stringify (JObj
           [(''input'', JObj [(''text'', text)]),
            (''audio'', JObj [(''encoding'', JStr ''LINEAR16''),
                             (''sampleRateHertz'', JNum (Finite 24000))])])\<rparr>) (\<lambda>gRes.
     if \<not> ok gRes then
       bind_io (await (r_text gRes)) (\<lambda>txt.
       seq_io (emit (ConsoleError [LStr ''Gemini TTS error:'', LNum (r_status gRes), LStr txt]))
         (return_io (json_response 502
            [(''error'', ''Gemini TTS failed''), (''details'', substring0 300 txt)])))
     else
       bind_io (await (r_arrayBuffer gRes)) (\<lambda>gab.
       return_io (audio_response gab)))"

text \<open>Lines 38 to 102: the branch taken when the content type names JSON.\<close>

definition json_branch :: "env \<Rightarrow> platform \<Rightarrow> buffer \<Rightarrow> response io" where
  "json_branch e p rawBuffer =
     bind_io (await (JSON_parse p (bodyText p rawBuffer))) (\<lambda>body.
     bind_io (await (destructure body)) (\<lambda>(text, language, mode).
     if \<not> truthy text then
       return_io (json_response 400 [(''error'', ''Missing text field in JSON body'')])
     else if mode = JStr ''cloned'' \<and> RVC_SERVER_URL e \<noteq> [] then
       rvc_synth e p text language
     else if GEMINI_API_KEY e = [] then
       return_io (json_response 500
         [(''error'', ''No RVC_SERVER_URL or GEMINI_API_KEY configured'')])
     else
       gemini_tts e p text))"

text \<open>Lines 107 to 132: every other content type.\<close>

definition raw_branch :: "env \<Rightarrow> platform \<Rightarrow> request \<Rightarrow> buffer \<Rightarrow> response io" where
  "raw_branch e p req rawBuffer =
     (if RVC_SERVER_URL e = [] then
        return_io (json_response 400
          [(''error'', ''This endpoint received audio, but RVC_SERVER_URL is not set. Set RVC_SERVER_URL to forward audio.'')])
      else
        bind_io (call_fetch p RVC_audio
           \<lparr>url = synthesize_url e,
            fetch_method = ''POST'',
            fetch_headers =
              [(''Content-Type'', or_default (content_type req) ''application/octet-stream'')],
            body = Raw rawBuffer\<rparr>) (\<lambda>r.
        if \<not> ok r then
          bind_io (await (r_text r)) (\<lambda>txt.
          seq_io (emit (ConsoleError [LStr ''RVC (audio) error:'', LNum (r_status r), LStr txt]))
            (return_io (json_response 502
               [(''error'', ''RVC audio processing failed''), (''details'', substring0 200 txt)])))
        else
          bind_io (await (r_arrayBuffer r)) (\<lambda>rab.
          return_io (audio_response rab))))"

text \<open>Lines 24 to 137. The handler always answers, so its result is a response and a trace.\<close>

definition handler_io :: "env \<Rightarrow> platform \<Rightarrow> request \<Rightarrow> response io" where
  "handler_io e p req =
     (if req_method req \<noteq> ''POST'' then
        return_io (json_response 405 [(''error'', ''Only POST allowed'')])
      else
        try_catch
          (bind_io (readRawRequest req) (\<lambda>rawBuffer.
           if str_includes (contentType req) ''application/json''
           then json_branch e p rawBuffer
           else raw_branch e p req rawBuffer))
          (\<lambda>err.
           seq_io (emit (ConsoleError [LStr ''voice.js error'', LErr err]))
             (return_io (json_response 500
                [(''error'', ''Internal server error''),
                 (''details'', substring0 300 (String_err err))]))))"

subsection \<open>Observations on a run\<close>

text \<open>The upstream calls of a trace, in order, each with the call site that made it.\<close>

fun fetches :: "event list \<Rightarrow> (call_site \<times> fetch_request) list" where
  "fetches [] = []"
| "fetches (Fetch site q # evs) = (site, q) # fetches evs"
| "fetches (ev # evs) = fetches evs"

subsection \<open>A test double for the built-ins\<close>

text \<open>
  A deterministic stand-in for the platform, used to run the handler on concrete
  requests: buffers hold ASCII, \<^verbatim>\<open>JSON.parse\<close> knows a handful of texts and rejects
  every other one, the cloning server answers 500 with the text \<^verbatim>\<open>boom\<close> and every
  other URL answers 429.
\<close>

definition example_parse :: "string \<Rightarrow> js_error + jsval" where
  "example_parse s =
     (if s = ''{}'' then Inr (JObj [])
      else if s = ''null'' then Inr JNull
      else if s = ''{\"text\":\"hi\"}'' then Inr (JObj [(''text'', JStr ''hi'')])
      else if s = ''{\"text\":\"hi\",\"language\":\"fr\",\"mode\":\"normal\"}''
        then Inr (JObj [(''text'', JStr ''hi''), (''language'', JStr ''fr''),
                        (''mode'', JStr ''normal'')])
      else Inl (JsError ''SyntaxError'' ''Unexpected token''))"

definition example_fetch :: "fetch_request \<Rightarrow> js_error + fetch_response" where
  "example_fetch q =
     (if url q = ''https://gpu.example.com/synthesize''
      then Inr \<lparr>r_status = 500, r_text = Inr ''boom'', r_arrayBuffer = Inr []\<rparr>
      else Inr \<lparr>r_status = 429, r_text = Inr ''quota'', r_arrayBuffer = Inr []\<rparr>)"

definition example_platform :: platform where
  "example_platform =
     \<lparr>toString_utf8 = map (\<lambda>w. char_of (unat w)),
      JSON_parse = example_parse,
      fetch = example_fetch\<rparr>"

definition ascii :: "string \<Rightarrow> buffer" where
  "ascii s = map (\<lambda>c. of_nat (of_char c)) s"

definition both_configured :: env where
  "both_configured =
     \<lparr>env_RVC_SERVER_URL = Some ''https://gpu.example.com/'',
      env_GEMINI_API_KEY = Some ''secret'',
      env_GEMINI_TTS_URL = None\<rparr>"

definition tts_only :: env where
  "tts_only =
     \<lparr>env_RVC_SERVER_URL = None,
      env_GEMINI_API_KEY = Some ''secret'',
      env_GEMINI_TTS_URL = None\<rparr>"

definition nothing_configured :: env where
  "nothing_configured =
     \<lparr>env_RVC_SERVER_URL = None, env_GEMINI_API_KEY = None, env_GEMINI_TTS_URL = None\<rparr>"

definition post_json :: "string \<Rightarrow> request" where
  "post_json s =
     \<lparr>req_method = ''POST'', content_type = Some ''application/json'', chunks = [ascii s],
      stream_error = None\<rparr>"

definition empty_header_request :: request where
  "empty_header_request =
     \<lparr>req_method = ''POST'', content_type = Some '''', chunks = [ascii ''RIFF''],
      stream_error = None\<rparr>"

definition audio_request :: request where
  "audio_request =
     \<lparr>req_method = ''POST'', content_type = Some ''audio/wav'',
      chunks = [ascii ''RI'', ascii ''FF''], stream_error = None\<rparr>"

text \<open>An upload that the client aborts after the first chunk.\<close>

definition aborted_request :: request where
  "aborted_request =
     \<lparr>req_method = ''POST'', content_type = Some ''audio/wav'',
      chunks = [ascii ''RI''], stream_error = Some (JsError ''Error'' ''aborted'')\<rparr>"

section \<open>Properties\<close>

subsection \<open>The content type test\<close>

text \<open>
  \<open>str_includes\<close> is the substring test, and a header that contains
  \<^verbatim>\<open>application/json\<close> as written still contains it after the lower-casing of
  line 31.
\<close>

lemma take_prefix_iff: "take (length t) xs = t \<longleftrightarrow> (\<exists>ss. xs = t @ ss)"
  by (metis append_eq_conv_conj append_take_drop_id)

lemma str_includes_iff: "str_includes s t \<longleftrightarrow> (\<exists>ps ss. s = ps @ t @ ss)"
proof (induction s)
  case Nil
  then show ?case by simp
next
  case (Cons c cs)
  show ?case
  proof
    assume "str_includes (c # cs) t"
    then consider "take (length t) (c # cs) = t" | "str_includes cs t" by auto
    then show "\<exists>ps ss. c # cs = ps @ t @ ss"
    proof cases
      case 1
      then obtain ss where "c # cs = t @ ss" using take_prefix_iff by blast
      then have "c # cs = [] @ t @ ss" by simp
      then show ?thesis by blast
    next
      case 2
      with Cons.IH obtain ps ss where "cs = ps @ t @ ss" by blast
      then have "c # cs = (c # ps) @ t @ ss" by simp
      then show ?thesis by blast
    qed
  next
    assume "\<exists>ps ss. c # cs = ps @ t @ ss"
    then obtain ps ss where eq: "c # cs = ps @ t @ ss" by blast
    show "str_includes (c # cs) t"
    proof (cases ps)
      case Nil
      with eq have "take (length t) (c # cs) = t" using take_prefix_iff by auto
      then show ?thesis by simp
    next
      case (Cons a ps')
      with eq have "cs = ps' @ t @ ss" by simp
      with Cons.IH have "str_includes cs t" by blast
      then show ?thesis by simp
    qed
  qed
qed

lemma toLowerCase_json: "toLowerCase ''application/json'' = ''application/json''"
  by (simp add: toLowerCase_def toLowerCase_char_def)

lemma literal_json_content_type:
  assumes "content_type req = Some ct" and "str_includes ct ''application/json''"
  shows "str_includes (contentType req) ''application/json''"
proof -
  from assms(2) obtain ps ss where ct: "ct = ps @ ''application/json'' @ ss"
    unfolding str_includes_iff by blast
  then have "ct \<noteq> []" by simp
  then have "contentType req = toLowerCase ct"
    using assms(1) by (simp add: contentType_def)
  also have "\<dots> = toLowerCase ps @ ''application/json'' @ toLowerCase ss"
    unfolding ct using toLowerCase_json by (simp add: toLowerCase_def)
  finally show ?thesis
    unfolding str_includes_iff by blast
qed

subsection \<open>Stepping through the combinators\<close>

lemma bind_io_Inr: "bind_io (Inr a, t) f = (fst (f a), t @ snd (f a))"
  by (simp add: bind_io_def split: prod.splits)

lemma bind_io_Inl: "bind_io (Inl e, t) f = (Inl e, t)"
  by (simp add: bind_io_def)

lemma try_catch_Inr: "try_catch (Inr a, t) h = (Inr a, t)"
  by (simp add: try_catch_def)

lemma try_catch_Inl: "try_catch (Inl e, t) h = (fst (h e), t @ snd (h e))"
  by (simp add: try_catch_def split: prod.splits)

lemma seq_io_emit: "seq_io (emit ev) k = (fst k, ev # snd k)"
  by (simp add: seq_io_def emit_def bind_io_Inr)

lemma return_io_fst: "fst (return_io x) = Inr x"
  by (simp add: return_io_def)

lemma return_io_snd: "snd (return_io x) = []"
  by (simp add: return_io_def)

lemma call_fetch_eq: "call_fetch p site q = (fetch p q, [Fetch site q])"
  by (simp add: call_fetch_def await_def seq_io_emit)

lemma readRawRequest_eq:
  "stream_error req = None \<Longrightarrow> readRawRequest req = (Inr (concat (chunks req)), [ReadBody])"
  by (simp add: readRawRequest_def seq_io_emit return_io_fst return_io_snd)

lemma readRawRequest_throws:
  "stream_error req = Some err \<Longrightarrow> readRawRequest req = (Inl err, [ReadBody])"
  by (simp add: readRawRequest_def seq_io_emit throw_io_def)

lemmas io_simps = bind_io_Inr bind_io_Inl try_catch_Inr try_catch_Inl seq_io_emit
  return_io_fst return_io_snd call_fetch_eq await_def

lemma fetches_append: "fetches (xs @ ys) = fetches xs @ fetches ys"
  by (induction xs rule: fetches.induct) simp_all

text \<open>
  The three upstream calls have one shape: fetch, then either read the error text, log
  and answer 502, or read the bytes and relay them. Whatever the outcome, the trace holds
  the one call.
\<close>

lemma relay_fetches:
  "fetches (snd (bind_io (call_fetch p site q) (\<lambda>r.
      if \<not> ok r then
        bind_io (await (r_text r)) (\<lambda>t.
        seq_io (emit (ConsoleError (l r t))) (return_io (g t)))
      else
        bind_io (await (r_arrayBuffer r)) (\<lambda>ab. return_io (h ab))))) = [(site, q)]"
proof (cases "fetch p q")
  case (Inl err)
  then show ?thesis by (simp add: io_simps)
next
  case (Inr r)
  show ?thesis
  proof (cases "ok r")
    case True
    with Inr show ?thesis
      by (cases "r_arrayBuffer r") (simp_all add: io_simps)
  next
    case False
    with Inr show ?thesis
      by (cases "r_text r") (simp_all add: io_simps)
  qed
qed

lemma relay_result:
  "fst (bind_io (call_fetch p site q) (\<lambda>r.
      if \<not> ok r then
        bind_io (await (r_text r)) (\<lambda>t.
        seq_io (emit (ConsoleError (l r t))) (return_io (g t)))
      else
        bind_io (await (r_arrayBuffer r)) (\<lambda>ab. return_io (h ab)))) =
   (case fetch p q of
      Inl err \<Rightarrow> Inl err
    | Inr r \<Rightarrow>
        if \<not> ok r then (case r_text r of Inl err \<Rightarrow> Inl err | Inr t \<Rightarrow> Inr (g t))
        else (case r_arrayBuffer r of Inl err \<Rightarrow> Inl err | Inr ab \<Rightarrow> Inr (h ab)))"
  by (simp add: io_simps split: sum.split)

lemma rvc_synth_fetches:
  "fetches (snd (rvc_synth e p text language)) =
     [(RVC_synth,
       \<lparr>url = synthesize_url e,
        fetch_method = ''POST'',
        fetch_headers = [(''Content-Type'', ''application/json'')],
        body = JSON_stringify (JObj [(''text'', text), (''language'', language)])\<rparr>)]"
  unfolding rvc_synth_def by (rule relay_fetches)

lemma gemini_tts_fetches:
  "fetches (snd (gemini_tts e p text)) =
     [(Gemini_TTS,
       \<lparr>url = GEMINI_TTS_URL e,
        fetch_method = ''POST'',
        fetch_headers =
          [(''Content-Type'', ''application/json''),
           (''Authorization'', ''Bearer '' @ GEMINI_API_KEY e)],
        body = JSON_stringify (JObj
          [(''input'', JObj [(''text'', text)]),
           (''audio'', JObj [(''encoding'', JStr ''LINEAR16''),
                            (''sampleRateHertz'', JNum (Finite 24000))])])\<rparr>)]"
  unfolding gemini_tts_def by (rule relay_fetches)

lemma raw_branch_fetches:
  "fetches (snd (raw_branch e p req rawBuffer)) =
     (if RVC_SERVER_URL e = [] then []
      else [(RVC_audio,
        \<lparr>url = synthesize_url e,
         fetch_method = ''POST'',
         fetch_headers =
           [(''Content-Type'', or_default (content_type req) ''application/octet-stream'')],
         body = Raw rawBuffer\<rparr>)])"
proof (cases "RVC_SERVER_URL e = []")
  case True
  then show ?thesis by (simp add: raw_branch_def io_simps)
next
  case False
  then show ?thesis
    unfolding raw_branch_def by (simp only: if_False relay_fetches)
qed

text \<open>
  A POST request whose stream breaks off: the read of line 34 throws inside the try, so
  the answer is the 500 of line 135 and no branch runs.
\<close>

lemma handler_post_aborted:
  assumes "req_method req = ''POST''" and "stream_error req = Some err"
  shows "handler_io e p req =
     (Inr (json_response 500
        [(''error'', ''Internal server error''),
         (''details'', substring0 300 (String_err err))]),
      [ReadBody, ConsoleError [LStr ''voice.js error'', LErr err]])"
  using assms(1)
  by (simp add: handler_io_def readRawRequest_throws [OF assms(2)] io_simps)

text \<open>
  A POST request whose body arrives: the body is read, the branch runs, and an exception
  is logged and answered by the outermost handler, which makes no call.
\<close>

lemma handler_post:
  assumes "req_method req = ''POST''" and "stream_error req = None"
  shows "handler_io e p req =
     (case (if str_includes (contentType req) ''application/json''
            then json_branch e p (concat (chunks req))
            else raw_branch e p req (concat (chunks req))) of
        (Inl err, t) \<Rightarrow>
          (Inr (json_response 500
             [(''error'', ''Internal server error''),
              (''details'', substring0 300 (String_err err))]),
           ReadBody # t @ [ConsoleError [LStr ''voice.js error'', LErr err]])
      | (Inr resp, t) \<Rightarrow> (Inr resp, ReadBody # t))"
    (is "_ = (case ?b of (Inl err, t) \<Rightarrow> ?f err t | (Inr resp, t) \<Rightarrow> ?g resp t)")
proof -
  obtain r t where b: "?b = (r, t)" by (cases ?b)
  have "handler_io e p req =
      try_catch (bind_io (readRawRequest req) (\<lambda>rawBuffer.
           if str_includes (contentType req) ''application/json''
           then json_branch e p rawBuffer
           else raw_branch e p req rawBuffer))
          (\<lambda>err.
           seq_io (emit (ConsoleError [LStr ''voice.js error'', LErr err]))
             (return_io (json_response 500
                [(''error'', ''Internal server error''),
                 (''details'', substring0 300 (String_err err))])))"
    using assms(1) by (simp add: handler_io_def)
  also have "\<dots> = (case ?b of (Inl err, t) \<Rightarrow> ?f err t | (Inr resp, t) \<Rightarrow> ?g resp t)"
    unfolding readRawRequest_eq [OF assms(2)] bind_io_Inr b
    by (cases r) (simp_all add: io_simps)
  finally show ?thesis .
qed

lemma handler_post_fetches:
  assumes "req_method req = ''POST''" and "stream_error req = None"
  shows "fetches (snd (handler_io e p req)) =
     (if str_includes (contentType req) ''application/json''
      then fetches (snd (json_branch e p (concat (chunks req))))
      else fetches (snd (raw_branch e p req (concat (chunks req)))))"
proof (cases "str_includes (contentType req) ''application/json''")
  case True
  obtain r t where b: "json_branch e p (concat (chunks req)) = (r, t)"
    by (cases "json_branch e p (concat (chunks req))")
  show ?thesis
    unfolding handler_post [OF assms] using True b
    by (cases r) (simp_all add: fetches_append)
next
  case False
  obtain r t where b: "raw_branch e p req (concat (chunks req)) = (r, t)"
    by (cases "raw_branch e p req (concat (chunks req))")
  show ?thesis
    unfolding handler_post [OF assms] using False b
    by (cases r) (simp_all add: fetches_append)
qed

lemma json_branch_parsed:
  assumes "JSON_parse p (bodyText p rawBuffer) = Inr parsed"
    and "destructure parsed = Inr (text, language, mode)"
  shows "json_branch e p rawBuffer =
     (if \<not> truthy text then
        return_io (json_response 400 [(''error'', ''Missing text field in JSON body'')])
      else if mode = JStr ''cloned'' \<and> RVC_SERVER_URL e \<noteq> [] then
        rvc_synth e p text language
      else if GEMINI_API_KEY e = [] then
        return_io (json_response 500
          [(''error'', ''No RVC_SERVER_URL or GEMINI_API_KEY configured'')])
      else
        gemini_tts e p text)"
  unfolding json_branch_def using assms by (simp add: io_simps)

lemma json_branch_throws:
  assumes "JSON_parse p (bodyText p rawBuffer) = Inl err
         \<or> (\<exists>parsed. JSON_parse p (bodyText p rawBuffer) = Inr parsed \<and> destructure parsed = Inl err)"
  shows "json_branch e p rawBuffer = (Inl err, [])"
  unfolding json_branch_def using assms by (auto simp add: io_simps)

subsection \<open>The test double, evaluated\<close>

lemma toString_ascii: "toString_utf8 example_platform (ascii s) = s"
proof -
  have "char_of (unat (of_nat (of_char c) :: 8 word)) = c" for c :: char
  proof -
    have "of_char c < (256 :: nat)" by simp
    then have "unat (of_nat (of_char c) :: 8 word) = of_char c"
      by (simp add: unat_of_nat)
    then show ?thesis by simp
  qed
  then show ?thesis
    by (simp add: example_platform_def ascii_def comp_def)
qed

lemma bodyText_ascii:
  "bodyText example_platform (ascii s) = (if s = [] then ''{}'' else s)"
  by (simp add: bodyText_def toString_ascii)

lemma post_json_simps:
  "req_method (post_json s) = ''POST''"
  "content_type (post_json s) = Some ''application/json''"
  "concat (chunks (post_json s)) = ascii s"
  "stream_error (post_json s) = None"
  by (simp_all add: post_json_def)

lemma post_json_is_json: "str_includes (contentType (post_json s)) ''application/json''"
  by (simp add: contentType_def post_json_simps toLowerCase_def toLowerCase_char_def)

lemma example_env_simps:
  "RVC_SERVER_URL both_configured = ''https://gpu.example.com/''"
  "GEMINI_API_KEY both_configured = ''secret''"
  "RVC_SERVER_URL tts_only = []"
  "GEMINI_API_KEY tts_only = ''secret''"
  "GEMINI_TTS_URL tts_only = ''https://api.generativeai.googleapis.com/v1beta2/speech:generate''"
  "RVC_SERVER_URL nothing_configured = []"
  "GEMINI_API_KEY nothing_configured = []"
  by (simp_all add: RVC_SERVER_URL_def GEMINI_API_KEY_def GEMINI_TTS_URL_def
      both_configured_def tts_only_def nothing_configured_def)

lemma example_parse_simps:
  "JSON_parse example_platform ''{}'' = Inr (JObj [])"
  "JSON_parse example_platform ''null'' = Inr JNull"
  "JSON_parse example_platform ''{\"text\":\"hi\"}'' = Inr (JObj [(''text'', JStr ''hi'')])"
  "JSON_parse example_platform ''{\"text\":\"hi\",\"language\":\"fr\",\"mode\":\"normal\"}'' =
     Inr (JObj [(''text'', JStr ''hi''), (''language'', JStr ''fr''), (''mode'', JStr ''normal'')])"
  "JSON_parse example_platform ''{'' = Inl (JsError ''SyntaxError'' ''Unexpected token'')"
  by (simp_all add: example_platform_def example_parse_def)

lemma destructure_examples:
  "destructure (JObj [(''text'', JStr ''hi'')]) = Inr (JStr ''hi'', JStr ''en'', JStr ''cloned'')"
  "destructure (JObj [(''text'', JStr ''hi''), (''language'', JStr ''fr''), (''mode'', JStr ''normal'')]) =
     Inr (JStr ''hi'', JStr ''fr'', JStr ''normal'')"
  "destructure (JObj []) = Inr (JUndefined, JStr ''en'', JStr ''cloned'')"
  by (simp_all add: get_property_def with_default_def)

subsection \<open>What an upstream call leads to\<close>

lemma handler_post_fst:
  assumes "req_method req = ''POST''" and "stream_error req = None"
  shows "fst (handler_io e p req) =
     Inr (case fst (if str_includes (contentType req) ''application/json''
                    then json_branch e p (concat (chunks req))
                    else raw_branch e p req (concat (chunks req))) of
            Inl err \<Rightarrow>
              json_response 500
                [(''error'', ''Internal server error''),
                 (''details'', substring0 300 (String_err err))]
          | Inr resp \<Rightarrow> resp)"
  unfolding handler_post [OF assms]
  by (simp split: prod.split sum.split)

lemma handler_responds: "\<exists>resp t. handler_io e p req = (Inr resp, t)"
proof (cases "req_method req = ''POST''")
  case True
  show ?thesis
  proof (cases "stream_error req")
    case None
    from handler_post_fst [OF True None, of e p] show ?thesis
      by (metis prod.collapse)
  next
    case (Some err)
    from handler_post_aborted [OF True Some, of e p] show ?thesis by blast
  qed
next
  case False
  then show ?thesis by (simp add: handler_io_def return_io_def)
qed

lemma rvc_synth_result:
  "fst (rvc_synth e p text language) =
     (case fetch p
        \<lparr>url = synthesize_url e,
         fetch_method = ''POST'',
         fetch_headers = [(''Content-Type'', ''application/json'')],
         body = JSON_stringify (JObj [(''text'', text), (''language'', language)])\<rparr> of
        Inl err \<Rightarrow> Inl err
      | Inr r \<Rightarrow>
          if \<not> ok r then
            (case r_text r of
               Inl err \<Rightarrow> Inl err
             | Inr t \<Rightarrow> Inr (json_response 502
                 [(''error'', ''RVC synth failed''), (''details'', substring0 200 t)]))
          else (case r_arrayBuffer r of Inl err \<Rightarrow> Inl err | Inr ab \<Rightarrow> Inr (audio_response ab)))"
  unfolding rvc_synth_def by (rule relay_result)

lemma gemini_tts_result:
  "fst (gemini_tts e p text) =
     (case fetch p
        \<lparr>url = GEMINI_TTS_URL e,
         fetch_method = ''POST'',
         fetch_headers =
           [(''Content-Type'', ''application/json''),
            (''Authorization'', ''Bearer '' @ GEMINI_API_KEY e)],
         body = JSON_stringify (JObj
           [(''input'', JObj [(''text'', text)]),
            (''audio'', JObj [(''encoding'', JStr ''LINEAR16''),
                             (''sampleRateHertz'', JNum (Finite 24000))])])\<rparr> of
        Inl err \<Rightarrow> Inl err
      | Inr r \<Rightarrow>
          if \<not> ok r then
            (case r_text r of
               Inl err \<Rightarrow> Inl err
             | Inr t \<Rightarrow> Inr (json_response 502
                 [(''error'', ''Gemini TTS failed''), (''details'', substring0 300 t)]))
          else (case r_arrayBuffer r of Inl err \<Rightarrow> Inl err | Inr ab \<Rightarrow> Inr (audio_response ab)))"
  unfolding gemini_tts_def by (rule relay_result)

lemma raw_branch_result:
  assumes "RVC_SERVER_URL e \<noteq> []"
  shows "fst (raw_branch e p req rawBuffer) =
     (case fetch p
        \<lparr>url = synthesize_url e,
         fetch_method = ''POST'',
         fetch_headers =
           [(''Content-Type'', or_default (content_type req) ''application/octet-stream'')],
         body = Raw rawBuffer\<rparr> of
        Inl err \<Rightarrow> Inl err
      | Inr r \<Rightarrow>
          if \<not> ok r then
            (case r_text r of
               Inl err \<Rightarrow> Inl err
             | Inr t \<Rightarrow> Inr (json_response 502
                 [(''error'', ''RVC audio processing failed''), (''details'', substring0 200 t)]))
          else (case r_arrayBuffer r of Inl err \<Rightarrow> Inl err | Inr ab \<Rightarrow> Inr (audio_response ab)))"
  unfolding raw_branch_def using assms by (simp only: if_False relay_result)

text \<open>
  Every run of a branch makes no call, or makes one call and ends as that call's outcome
  dictates: the exception of a failed fetch or body read, the 502 of its call site, or
  the relayed audio.
\<close>

lemma json_branch_calls:
  "fetches (snd (json_branch e p rawBuffer)) = []
   \<or> (\<exists>site q. fetches (snd (json_branch e p rawBuffer)) = [(site, q)]
        \<and> fst (json_branch e p rawBuffer) =
          (case fetch p q of
             Inl err \<Rightarrow> Inl err
           | Inr r \<Rightarrow>
               if \<not> ok r then
                 (case r_text r of
                    Inl err \<Rightarrow> Inl err
                  | Inr t \<Rightarrow> Inr (json_response 502
                      [(''error'',
                        (case site of
                           RVC_synth \<Rightarrow> ''RVC synth failed''
                         | Gemini_TTS \<Rightarrow> ''Gemini TTS failed''
                         | RVC_audio \<Rightarrow> ''RVC audio processing failed'')),
                       (''details'',
                        substring0 (case site of Gemini_TTS \<Rightarrow> 300 | _ \<Rightarrow> 200) t)]))
               else (case r_arrayBuffer r of
                       Inl err \<Rightarrow> Inl err
                     | Inr ab \<Rightarrow> Inr (audio_response ab))))"
proof (cases "JSON_parse p (bodyText p rawBuffer)")
  case (Inl err)
  then have "json_branch e p rawBuffer = (Inl err, [])"
    by (intro json_branch_throws) simp
  then show ?thesis by simp
next
  case parsed: (Inr v)
  show ?thesis
  proof (cases "destructure v")
    case (Inl err)
    with parsed have "json_branch e p rawBuffer = (Inl err, [])"
      by (intro json_branch_throws) simp
    then show ?thesis by simp
  next
    case (Inr fields)
    obtain tx lang md where fields: "fields = (tx, lang, md)"
      by (cases fields)
    note path = json_branch_parsed [OF parsed Inr [unfolded fields], of e]
    consider (falsy) "\<not> truthy tx"
      | (cloned) "truthy tx" "md = JStr ''cloned'' \<and> RVC_SERVER_URL e \<noteq> []"
      | (unconfigured) "truthy tx" "\<not> (md = JStr ''cloned'' \<and> RVC_SERVER_URL e \<noteq> [])"
          "GEMINI_API_KEY e = []"
      | (tts) "truthy tx" "\<not> (md = JStr ''cloned'' \<and> RVC_SERVER_URL e \<noteq> [])"
          "GEMINI_API_KEY e \<noteq> []"
      by blast
    then show ?thesis
    proof cases
      case falsy
      with path show ?thesis by (simp add: return_io_def)
    next
      case cloned
      with path have "json_branch e p rawBuffer = rvc_synth e p tx lang" by simp
      then show ?thesis
        by (intro disjI2 exI [of _ RVC_synth]) (simp add: rvc_synth_fetches rvc_synth_result split: sum.split)
    next
      case unconfigured
      with path show ?thesis by (auto simp add: return_io_def)
    next
      case tts
      with path have "json_branch e p rawBuffer = gemini_tts e p tx" by auto
      then show ?thesis
        by (intro disjI2 exI [of _ Gemini_TTS]) (simp add: gemini_tts_fetches gemini_tts_result split: sum.split)
    qed
  qed
qed

lemma raw_branch_calls:
  "fetches (snd (raw_branch e p req rawBuffer)) = []
   \<or> (\<exists>site q. fetches (snd (raw_branch e p req rawBuffer)) = [(site, q)]
        \<and> fst (raw_branch e p req rawBuffer) =
          (case fetch p q of
             Inl err \<Rightarrow> Inl err
           | Inr r \<Rightarrow>
               if \<not> ok r then
                 (case r_text r of
                    Inl err \<Rightarrow> Inl err
                  | Inr t \<Rightarrow> Inr (json_response 502
                      [(''error'',
                        (case site of
                           RVC_synth \<Rightarrow> ''RVC synth failed''
                         | Gemini_TTS \<Rightarrow> ''Gemini TTS failed''
                         | RVC_audio \<Rightarrow> ''RVC audio processing failed'')),
                       (''details'',
                        substring0 (case site of Gemini_TTS \<Rightarrow> 300 | _ \<Rightarrow> 200) t)]))
               else (case r_arrayBuffer r of
                       Inl err \<Rightarrow> Inl err
                     | Inr ab \<Rightarrow> Inr (audio_response ab))))"
proof (cases "RVC_SERVER_URL e = []")
  case True
  then show ?thesis by (simp add: raw_branch_fetches)
next
  case False
  then show ?thesis
    by (intro disjI2 exI [of _ RVC_audio]) (simp add: raw_branch_fetches raw_branch_result split: sum.split)
qed

lemma handler_calls:
  "fetches (snd (handler_io e p req)) = []
   \<or> (\<exists>site q. fetches (snd (handler_io e p req)) = [(site, q)]
        \<and> fst (handler_io e p req) =
          Inr (case fetch p q of
             Inl err \<Rightarrow>
               json_response 500
                 [(''error'', ''Internal server error''),
                  (''details'', substring0 300 (String_err err))]
           | Inr r \<Rightarrow>
               if \<not> ok r then
                 (case r_text r of
                    Inl err \<Rightarrow>
                      json_response 500
                        [(''error'', ''Internal server error''),
                         (''details'', substring0 300 (String_err err))]
                  | Inr t \<Rightarrow> json_response 502
                      [(''error'',
                        (case site of
                           RVC_synth \<Rightarrow> ''RVC synth failed''
                         | Gemini_TTS \<Rightarrow> ''Gemini TTS failed''
                         | RVC_audio \<Rightarrow> ''RVC audio processing failed'')),
                       (''details'',
                        substring0 (case site of Gemini_TTS \<Rightarrow> 300 | _ \<Rightarrow> 200) t)])
               else (case r_arrayBuffer r of
                       Inl err \<Rightarrow>
                         json_response 500
                           [(''error'', ''Internal server error''),
                            (''details'', substring0 300 (String_err err))]
                     | Inr ab \<Rightarrow> audio_response ab)))"
proof (cases "req_method req = ''POST''")
  case False
  then show ?thesis by (simp add: handler_io_def return_io_def)
next
  case post: True
  show ?thesis
  proof (cases "stream_error req")
    case (Some err)
    from handler_post_aborted [OF post Some, of e p] show ?thesis by simp
  next
    case None
  note f = handler_post_fetches [OF post None, of e p]
    and r = handler_post_fst [OF post None, of e p]
  show ?thesis
  proof (cases "str_includes (contentType req) ''application/json''")
    case json: True
    from json_branch_calls [of e p "concat (chunks req)"] show ?thesis
    proof (elim disjE exE conjE)
      assume "fetches (snd (json_branch e p (concat (chunks req)))) = []"
      with f json show ?thesis by simp
    next
      fix site q
      assume "fetches (snd (json_branch e p (concat (chunks req)))) = [(site, q)]"
        and "fst (json_branch e p (concat (chunks req))) =
          (case fetch p q of
             Inl err \<Rightarrow> Inl err
           | Inr r \<Rightarrow>
               if \<not> ok r then
                 (case r_text r of
                    Inl err \<Rightarrow> Inl err
                  | Inr t \<Rightarrow> Inr (json_response 502
                      [(''error'',
                        (case site of
                           RVC_synth \<Rightarrow> ''RVC synth failed''
                         | Gemini_TTS \<Rightarrow> ''Gemini TTS failed''
                         | RVC_audio \<Rightarrow> ''RVC audio processing failed'')),
                       (''details'',
                        substring0 (case site of Gemini_TTS \<Rightarrow> 300 | _ \<Rightarrow> 200) t)]))
               else (case r_arrayBuffer r of
                       Inl err \<Rightarrow> Inl err
                     | Inr ab \<Rightarrow> Inr (audio_response ab)))"
      with f r json show ?thesis
        by (intro disjI2 exI [of _ site] exI [of _ q]) (simp split: sum.split)
    qed
  next
    case raw: False
    from raw_branch_calls [of e p req "concat (chunks req)"] show ?thesis
    proof (elim disjE exE conjE)
      assume "fetches (snd (raw_branch e p req (concat (chunks req)))) = []"
      with f raw show ?thesis by simp
    next
      fix site q
      assume "fetches (snd (raw_branch e p req (concat (chunks req)))) = [(site, q)]"
        and "fst (raw_branch e p req (concat (chunks req))) =
          (case fetch p q of
             Inl err \<Rightarrow> Inl err
           | Inr r \<Rightarrow>
               if \<not> ok r then
                 (case r_text r of
                    Inl err \<Rightarrow> Inl err
                  | Inr t \<Rightarrow> Inr (json_response 502
                      [(''error'',
                        (case site of
                           RVC_synth \<Rightarrow> ''RVC synth failed''
                         | Gemini_TTS \<Rightarrow> ''Gemini TTS failed''
                         | RVC_audio \<Rightarrow> ''RVC audio processing failed'')),
                       (''details'',
                        substring0 (case site of Gemini_TTS \<Rightarrow> 300 | _ \<Rightarrow> 200) t)]))
               else (case r_arrayBuffer r of
                       Inl err \<Rightarrow> Inl err
                     | Inr ab \<Rightarrow> Inr (audio_response ab)))"
      with f r raw show ?thesis
        by (intro disjI2 exI [of _ site] exI [of _ q]) (simp split: sum.split)
    qed
  qed
qed
qed

subsection \<open>Three runs against the test double\<close>

lemma audio_request_simps:
  "req_method audio_request = ''POST''"
  "content_type audio_request = Some ''audio/wav''"
  "concat (chunks audio_request) = ascii ''RIFF''"
  "\<not> str_includes (contentType audio_request) ''application/json''"
  "stream_error audio_request = None"
  by (simp_all add: audio_request_def ascii_def contentType_def toLowerCase_def
      toLowerCase_char_def)

lemma empty_header_request_simps:
  "req_method empty_header_request = ''POST''"
  "content_type empty_header_request = Some ''''"
  "concat (chunks empty_header_request) = ascii ''RIFF''"
  "\<not> str_includes (contentType empty_header_request) ''application/json''"
  "stream_error empty_header_request = None"
  by (simp_all add: empty_header_request_def contentType_def toLowerCase_def)

lemma aborted_request_simps:
  "req_method aborted_request = ''POST''"
  "\<not> str_includes (contentType aborted_request) ''application/json''"
  "stream_error aborted_request = Some (JsError ''Error'' ''aborted'')"
  by (simp_all add: aborted_request_def contentType_def toLowerCase_def toLowerCase_char_def)

lemma example_run_cloned:
  "fetches (snd (handler_io both_configured example_platform (post_json ''{\"text\":\"hi\"}''))) =
     [(RVC_synth,
       \<lparr>url = ''https://gpu.example.com/synthesize'',
        fetch_method = ''POST'',
        fetch_headers = [(''Content-Type'', ''application/json'')],
        body = JSON_stringify (JObj [(''text'', JStr ''hi''), (''language'', JStr ''en'')])\<rparr>)]"
proof -
  have "JSON_parse example_platform (bodyText example_platform (ascii ''{\"text\":\"hi\"}'')) =
      Inr (JObj [(''text'', JStr ''hi'')])"
    by (simp add: bodyText_ascii example_parse_simps)
  from json_branch_parsed [OF this destructure_examples(1), of both_configured]
  have "json_branch both_configured example_platform (ascii ''{\"text\":\"hi\"}'') =
      rvc_synth both_configured example_platform (JStr ''hi'') (JStr ''en'')"
    by (simp add: example_env_simps)
  then show ?thesis
    by (simp add: handler_post_fetches [OF post_json_simps(1,4)] post_json_is_json
        post_json_simps rvc_synth_fetches synthesize_url_def strip_trailing_slash_def
        example_env_simps)
qed

lemma example_run_tts:
  "fetches (snd (handler_io tts_only example_platform
      (post_json ''{\"text\":\"hi\",\"language\":\"fr\",\"mode\":\"normal\"}''))) =
     [(Gemini_TTS,
       \<lparr>url = ''https://api.generativeai.googleapis.com/v1beta2/speech:generate'',
        fetch_method = ''POST'',
        fetch_headers =
          [(''Content-Type'', ''application/json''),
           (''Authorization'', ''Bearer secret'')],
        body = JSON_stringify (JObj
          [(''input'', JObj [(''text'', JStr ''hi'')]),
           (''audio'', JObj [(''encoding'', JStr ''LINEAR16''),
                            (''sampleRateHertz'', JNum (Finite 24000))])])\<rparr>)]"
proof -
  have "JSON_parse example_platform (bodyText example_platform
      (ascii ''{\"text\":\"hi\",\"language\":\"fr\",\"mode\":\"normal\"}'')) =
      Inr (JObj [(''text'', JStr ''hi''), (''language'', JStr ''fr''), (''mode'', JStr ''normal'')])"
    by (simp add: bodyText_ascii example_parse_simps)
  from json_branch_parsed [OF this destructure_examples(2), of tts_only]
  have "json_branch tts_only example_platform
      (ascii ''{\"text\":\"hi\",\"language\":\"fr\",\"mode\":\"normal\"}'') =
      gemini_tts tts_only example_platform (JStr ''hi'')"
    by (simp add: example_env_simps)
  then show ?thesis
    by (simp add: handler_post_fetches [OF post_json_simps(1,4)] post_json_is_json
        post_json_simps gemini_tts_fetches example_env_simps)
qed

lemma example_run_audio:
  "fetches (snd (handler_io both_configured example_platform audio_request)) =
     [(RVC_audio,
       \<lparr>url = ''https://gpu.example.com/synthesize'',
        fetch_method = ''POST'',
        fetch_headers = [(''Content-Type'', ''audio/wav'')],
        body = Raw (ascii ''RIFF'')\<rparr>)]"
  by (simp add: handler_post_fetches [OF audio_request_simps(1,5)] audio_request_simps
      raw_branch_fetches synthesize_url_def strip_trailing_slash_def example_env_simps)

lemma example_fetch_simps:
  "fetch example_platform
     \<lparr>url = ''https://gpu.example.com/synthesize'', fetch_method = m, fetch_headers = hs,
      body = b\<rparr> =
     Inr \<lparr>r_status = 500, r_text = Inr ''boom'', r_arrayBuffer = Inr []\<rparr>"
  "fetch example_platform
     \<lparr>url = ''https://api.generativeai.googleapis.com/v1beta2/speech:generate'',
      fetch_method = m, fetch_headers = hs, body = b\<rparr> =
     Inr \<lparr>r_status = 429, r_text = Inr ''quota'', r_arrayBuffer = Inr []\<rparr>"
  by (simp_all add: example_platform_def example_fetch_def)

subsection \<open>The claims\<close>

text \<open>
  C8. A request whose method is not POST is answered 405 with the body
  \<^verbatim>\<open>{error: "Only POST allowed"}\<close>, and nothing else happens: the trace of the run is
  empty, so the body is not read and no upstream call is made, whatever the content type
  and the configuration are.
\<close>

theorem non_post_rejected:
  assumes "req_method req \<noteq> ''POST''"
  shows "handler_io e p req =
     (Inr \<lparr>status = 405, headers = [], payload = Json [(''error'', ''Only POST allowed'')]\<rparr>,
      [])"
  using assms by (simp add: handler_io_def return_io_def json_response_def)

theorem non_post_rejected_witness:
  "handler_io both_configured example_platform
     \<lparr>req_method = ''GET'', content_type = Some ''application/json'',
      chunks = [ascii ''{}''], stream_error = None\<rparr> =
     (Inr \<lparr>status = 405, headers = [], payload = Json [(''error'', ''Only POST allowed'')]\<rparr>,
      [])"
  by (rule non_post_rejected) simp

text \<open>
  C1. A POST request whose content type (lower-cased, line 31) contains
  \<^verbatim>\<open>application/json\<close> and whose body, read to its end and parsed, yields a
  truthy \<^verbatim>\<open>text\<close>: when
  \<^verbatim>\<open>mode === 'cloned'\<close> and the cloning server URL is non-empty, the one upstream
  call is a POST to that URL (one trailing slash removed) followed by
  \<^verbatim>\<open>/synthesize\<close>, with the header \<^verbatim>\<open>Content-Type: application/json\<close> and the
  body \<^verbatim>\<open>JSON.stringify({text, language})\<close>, which has no \<^verbatim>\<open>mode\<close>. Otherwise
  the TTS provider is the destination: without an API key the answer is 500 with
  \<^verbatim>\<open>No RVC_SERVER_URL or GEMINI_API_KEY configured\<close> and there is no upstream call;
  with a key the one upstream call goes to the TTS URL.
\<close>

theorem json_request_routing:
  assumes "req_method req = ''POST''"
    and "str_includes (contentType req) ''application/json''"
    and "JSON_parse p (bodyText p (concat (chunks req))) = Inr parsed"
    and "destructure parsed = Inr (text, language, mode)"
    and "truthy text"
    and body_read: "stream_error req = None"
  shows "(mode = JStr ''cloned'' \<and> RVC_SERVER_URL e \<noteq> [] \<longrightarrow>
            fetches (snd (handler_io e p req)) =
              [(RVC_synth,
                \<lparr>url = strip_trailing_slash (RVC_SERVER_URL e) @ ''/synthesize'',
                 fetch_method = ''POST'',
                 fetch_headers = [(''Content-Type'', ''application/json'')],
                 body = JSON_stringify (JObj [(''text'', text), (''language'', language)])\<rparr>)])
       \<and> (\<not> (mode = JStr ''cloned'' \<and> RVC_SERVER_URL e \<noteq> []) \<and> GEMINI_API_KEY e = [] \<longrightarrow>
            handler_io e p req =
              (Inr \<lparr>status = 500, headers = [],
                    payload = Json [(''error'',
                      ''No RVC_SERVER_URL or GEMINI_API_KEY configured'')]\<rparr>,
               [ReadBody]))
       \<and> (\<not> (mode = JStr ''cloned'' \<and> RVC_SERVER_URL e \<noteq> []) \<and> GEMINI_API_KEY e \<noteq> [] \<longrightarrow>
            (\<exists>q. fetches (snd (handler_io e p req)) = [(Gemini_TTS, q)]
                 \<and> url q = GEMINI_TTS_URL e \<and> fetch_method q = ''POST''))"
proof (intro conjI impI)
  assume c: "mode = JStr ''cloned'' \<and> RVC_SERVER_URL e \<noteq> []"
  have "json_branch e p (concat (chunks req)) = rvc_synth e p text language"
    using json_branch_parsed [OF assms(3,4), of e] assms(5) c by auto
  then show "fetches (snd (handler_io e p req)) =
              [(RVC_synth,
                \<lparr>url = strip_trailing_slash (RVC_SERVER_URL e) @ ''/synthesize'',
                 fetch_method = ''POST'',
                 fetch_headers = [(''Content-Type'', ''application/json'')],
                 body = JSON_stringify (JObj [(''text'', text), (''language'', language)])\<rparr>)]"
    using assms(2) by (simp add: handler_post_fetches [OF assms(1) body_read] rvc_synth_fetches synthesize_url_def)
next
  assume c: "\<not> (mode = JStr ''cloned'' \<and> RVC_SERVER_URL e \<noteq> []) \<and> GEMINI_API_KEY e = []"
  have "json_branch e p (concat (chunks req)) =
          return_io (json_response 500
            [(''error'', ''No RVC_SERVER_URL or GEMINI_API_KEY configured'')])"
    using json_branch_parsed [OF assms(3,4), of e] assms(5) c by auto
  then show "handler_io e p req =
              (Inr \<lparr>status = 500, headers = [],
                    payload = Json [(''error'',
                      ''No RVC_SERVER_URL or GEMINI_API_KEY configured'')]\<rparr>,
               [ReadBody])"
    using assms(2) by (simp add: handler_post [OF assms(1) body_read] return_io_def json_response_def)
next
  assume c: "\<not> (mode = JStr ''cloned'' \<and> RVC_SERVER_URL e \<noteq> []) \<and> GEMINI_API_KEY e \<noteq> []"
  have "json_branch e p (concat (chunks req)) = gemini_tts e p text"
    using json_branch_parsed [OF assms(3,4), of e] assms(5) c by auto
  then have "fetches (snd (handler_io e p req)) = fetches (snd (gemini_tts e p text))"
    using assms(2) by (simp add: handler_post_fetches [OF assms(1) body_read])
  then show "\<exists>q. fetches (snd (handler_io e p req)) = [(Gemini_TTS, q)]
                 \<and> url q = GEMINI_TTS_URL e \<and> fetch_method q = ''POST''"
    by (simp add: gemini_tts_fetches)
qed

theorem json_request_routing_witness:
  "fetches (snd (handler_io both_configured example_platform (post_json ''{\"text\":\"hi\"}''))) =
     [(RVC_synth,
       \<lparr>url = ''https://gpu.example.com/synthesize'',
        fetch_method = ''POST'',
        fetch_headers = [(''Content-Type'', ''application/json'')],
        body = JSON_stringify (JObj [(''text'', JStr ''hi''), (''language'', JStr ''en'')])\<rparr>)]
   \<and> handler_io nothing_configured example_platform (post_json ''{\"text\":\"hi\"}'') =
       (Inr \<lparr>status = 500, headers = [],
             payload = Json [(''error'', ''No RVC_SERVER_URL or GEMINI_API_KEY configured'')]\<rparr>,
        [ReadBody])
   \<and> (\<exists>q. fetches (snd (handler_io tts_only example_platform
              (post_json ''{\"text\":\"hi\",\"language\":\"fr\",\"mode\":\"normal\"}''))) =
              [(Gemini_TTS, q)]
          \<and> url q = ''https://api.generativeai.googleapis.com/v1beta2/speech:generate''
          \<and> fetch_method q = ''POST'')"
proof -
  have hi: "JSON_parse example_platform
      (bodyText example_platform (concat (chunks (post_json ''{\"text\":\"hi\"}'')))) =
      Inr (JObj [(''text'', JStr ''hi'')])"
    by (simp add: post_json_simps bodyText_ascii example_parse_simps)
  have normal: "JSON_parse example_platform
      (bodyText example_platform (concat (chunks
         (post_json ''{\"text\":\"hi\",\"language\":\"fr\",\"mode\":\"normal\"}'')))) =
      Inr (JObj [(''text'', JStr ''hi''), (''language'', JStr ''fr''), (''mode'', JStr ''normal'')])"
    by (simp add: post_json_simps bodyText_ascii example_parse_simps)
  have t: "truthy (JStr ''hi'')" by simp
  note a = json_request_routing [OF post_json_simps(1) post_json_is_json hi
      destructure_examples(1) t post_json_simps(4), of both_configured]
  note b = json_request_routing [OF post_json_simps(1) post_json_is_json hi
      destructure_examples(1) t post_json_simps(4), of nothing_configured]
  note c = json_request_routing [OF post_json_simps(1) post_json_is_json normal
      destructure_examples(2) t post_json_simps(4), of tts_only]
  from a have "fetches (snd (handler_io both_configured example_platform (post_json ''{\"text\":\"hi\"}''))) =
     [(RVC_synth,
       \<lparr>url = ''https://gpu.example.com/synthesize'',
        fetch_method = ''POST'',
        fetch_headers = [(''Content-Type'', ''application/json'')],
        body = JSON_stringify (JObj [(''text'', JStr ''hi''), (''language'', JStr ''en'')])\<rparr>)]"
    by (simp add: example_env_simps strip_trailing_slash_def)
  moreover from b have "handler_io nothing_configured example_platform (post_json ''{\"text\":\"hi\"}'') =
       (Inr \<lparr>status = 500, headers = [],
             payload = Json [(''error'', ''No RVC_SERVER_URL or GEMINI_API_KEY configured'')]\<rparr>,
        [ReadBody])"
    by (simp add: example_env_simps)
  moreover from c have "\<exists>q. fetches (snd (handler_io tts_only example_platform
              (post_json ''{\"text\":\"hi\",\"language\":\"fr\",\"mode\":\"normal\"}''))) =
              [(Gemini_TTS, q)]
          \<and> url q = ''https://api.generativeai.googleapis.com/v1beta2/speech:generate''
          \<and> fetch_method q = ''POST''"
    by (simp add: example_env_simps)
  ultimately show ?thesis by blast
qed

text \<open>
  C4. A POST request with a JSON content type whose body, read to its end and parsed,
  yields a falsy \<^verbatim>\<open>text\<close> is answered 400 with \<^verbatim>\<open>{error: "Missing text field in JSON body"}\<close>, and
  the trace holds the body read only, so no upstream call is made. For a parsed object
  this covers an absent \<^verbatim>\<open>text\<close>, the empty string, null, false and zero. An empty
  body is the same case: it decodes to the empty string, line 38 replaces that by
  \<^verbatim>\<open>{}\<close>, and \<^verbatim>\<open>JSON.parse\<close> makes the empty object of it.
\<close>

theorem falsy_text_rejected:
  assumes "req_method req = ''POST''"
    and "str_includes (contentType req) ''application/json''"
    and body_read: "stream_error req = None"
  shows "(\<forall>parsed text language mode.
            JSON_parse p (bodyText p (concat (chunks req))) = Inr parsed \<longrightarrow>
            destructure parsed = Inr (text, language, mode) \<longrightarrow> \<not> truthy text \<longrightarrow>
            handler_io e p req =
              (Inr \<lparr>status = 400, headers = [],
                    payload = Json [(''error'', ''Missing text field in JSON body'')]\<rparr>,
               [ReadBody]))
       \<and> (\<forall>kvs.
            JSON_parse p (bodyText p (concat (chunks req))) = Inr (JObj kvs) \<longrightarrow>
            map_of kvs ''text'' \<in> {None, Some (JStr []), Some JNull, Some (JBool False),
                                    Some (JNum (Finite 0))} \<longrightarrow>
            handler_io e p req =
              (Inr \<lparr>status = 400, headers = [],
                    payload = Json [(''error'', ''Missing text field in JSON body'')]\<rparr>,
               [ReadBody]))
       \<and> (concat (chunks req) = [] \<longrightarrow> toString_utf8 p [] = [] \<longrightarrow>
            JSON_parse p ''{}'' = Inr (JObj []) \<longrightarrow>
            handler_io e p req =
              (Inr \<lparr>status = 400, headers = [],
                    payload = Json [(''error'', ''Missing text field in JSON body'')]\<rparr>,
               [ReadBody]))"
proof -
  have main: "handler_io e p req =
      (Inr \<lparr>status = 400, headers = [],
            payload = Json [(''error'', ''Missing text field in JSON body'')]\<rparr>,
       [ReadBody])"
    if "JSON_parse p (bodyText p (concat (chunks req))) = Inr parsed"
      and "destructure parsed = Inr (tx, lang, md)" and "\<not> truthy tx"
    for parsed tx lang md
  proof -
    have "json_branch e p (concat (chunks req)) =
        return_io (json_response 400 [(''error'', ''Missing text field in JSON body'')])"
      using json_branch_parsed [OF that(1,2), of e] that(3) by simp
    then show ?thesis
      using assms(2) by (simp add: handler_post [OF assms(1) body_read] return_io_def json_response_def)
  qed
  have obj: "handler_io e p req =
      (Inr \<lparr>status = 400, headers = [],
            payload = Json [(''error'', ''Missing text field in JSON body'')]\<rparr>,
       [ReadBody])"
    if "JSON_parse p (bodyText p (concat (chunks req))) = Inr (JObj kvs)"
      and "map_of kvs ''text'' \<in> {None, Some (JStr []), Some JNull, Some (JBool False),
                                    Some (JNum (Finite 0))}"
    for kvs
  proof -
    have "\<not> truthy (get_property kvs ''text'')"
      using that(2) by (auto simp: get_property_def)
    then show ?thesis
      using main [OF that(1)] by simp
  qed
  have empty: "handler_io e p req =
      (Inr \<lparr>status = 400, headers = [],
            payload = Json [(''error'', ''Missing text field in JSON body'')]\<rparr>,
       [ReadBody])"
    if "concat (chunks req) = []" and "toString_utf8 p [] = []"
      and "JSON_parse p ''{}'' = Inr (JObj [])"
  proof -
    have "bodyText p (concat (chunks req)) = ''{}''"
      unfolding that(1) bodyText_def by (simp add: that(2))
    then have "JSON_parse p (bodyText p (concat (chunks req))) = Inr (JObj [])"
      using that(3) by simp
    then show ?thesis
      by (rule obj) simp
  qed
  from main obj empty show ?thesis by blast
qed

theorem falsy_text_rejected_witness:
  "handler_io both_configured example_platform (post_json ''{}'') =
     (Inr \<lparr>status = 400, headers = [],
           payload = Json [(''error'', ''Missing text field in JSON body'')]\<rparr>,
      [ReadBody])
   \<and> handler_io both_configured example_platform (post_json '''') =
     (Inr \<lparr>status = 400, headers = [],
           payload = Json [(''error'', ''Missing text field in JSON body'')]\<rparr>,
      [ReadBody])"
proof -
  have parsed: "JSON_parse example_platform
      (bodyText example_platform (concat (chunks (post_json ''{}'')))) = Inr (JObj [])"
    by (simp add: post_json_simps bodyText_ascii example_parse_simps)
  have falsy: "\<not> truthy JUndefined" by simp
  have absent: "map_of [] ''text'' \<in> {None, Some (JStr []), Some JNull, Some (JBool False),
      Some (JNum (Finite 0))}" by simp
  have no_body: "concat (chunks (post_json '''')) = []"
    by (simp add: post_json_simps ascii_def)
  have decode: "toString_utf8 example_platform [] = []"
    by (simp add: example_platform_def)
  note a = falsy_text_rejected [OF post_json_simps(1) post_json_is_json post_json_simps(4),
      of example_platform "''{}''" both_configured]
  note b = falsy_text_rejected [OF post_json_simps(1) post_json_is_json post_json_simps(4),
      of example_platform "''''" both_configured]
  from a parsed destructure_examples(3) falsy
  have "handler_io both_configured example_platform (post_json ''{}'') =
     (Inr \<lparr>status = 400, headers = [],
           payload = Json [(''error'', ''Missing text field in JSON body'')]\<rparr>,
      [ReadBody])"
    by blast
  moreover from a parsed absent
  have "handler_io both_configured example_platform (post_json ''{}'') =
     (Inr \<lparr>status = 400, headers = [],
           payload = Json [(''error'', ''Missing text field in JSON body'')]\<rparr>,
      [ReadBody])"
    by blast
  moreover from b no_body decode example_parse_simps(1)
  have "handler_io both_configured example_platform (post_json '''') =
     (Inr \<lparr>status = 400, headers = [],
           payload = Json [(''error'', ''Missing text field in JSON body'')]\<rparr>,
      [ReadBody])"
    by blast
  ultimately show ?thesis by blast
qed

text \<open>
  C6. A POST request with a JSON content type whose body is read to its end and whose
  body text is rejected by
  \<^verbatim>\<open>JSON.parse\<close> (the text is the decoded body, which is not empty when the body is
  not): the exception reaches the catch of line 133, which logs it and answers 500, not
  400, with \<^verbatim>\<open>{error: "Internal server error"}\<close> and as details the first 300
  characters of \<^verbatim>\<open>String(err)\<close>. No upstream call is made.
\<close>

theorem malformed_json_internal_error:
  assumes "req_method req = ''POST''"
    and "str_includes (contentType req) ''application/json''"
    and "concat (chunks req) \<noteq> []"
    and "JSON_parse p (bodyText p (concat (chunks req))) = Inl err"
    and body_read: "stream_error req = None"
  shows "handler_io e p req =
     (Inr \<lparr>status = 500, headers = [],
           payload = Json [(''error'', ''Internal server error''),
                           (''details'', take 300 (String_err err))]\<rparr>,
      [ReadBody, ConsoleError [LStr ''voice.js error'', LErr err]])
     \<and> length (take 300 (String_err err)) \<le> 300"
proof -
  have "json_branch e p (concat (chunks req)) = (Inl err, [])"
    using assms(4) by (intro json_branch_throws) simp
  then show ?thesis
    using assms(2)
    by (simp add: handler_post [OF assms(1) body_read] json_response_def substring0_def)
qed

theorem malformed_json_internal_error_witness:
  "handler_io both_configured example_platform (post_json ''{'') =
     (Inr \<lparr>status = 500, headers = [],
           payload = Json [(''error'', ''Internal server error''),
                           (''details'', ''SyntaxError: Unexpected token'')]\<rparr>,
      [ReadBody,
       ConsoleError [LStr ''voice.js error'',
                     LErr (JsError ''SyntaxError'' ''Unexpected token'')]])"
proof -
  have nonempty: "concat (chunks (post_json ''{'')) \<noteq> []"
    by (simp add: post_json_simps ascii_def)
  have rejected: "JSON_parse example_platform
      (bodyText example_platform (concat (chunks (post_json ''{'')))) =
      Inl (JsError ''SyntaxError'' ''Unexpected token'')"
    by (simp add: post_json_simps bodyText_ascii example_parse_simps)
  show ?thesis
    using malformed_json_internal_error [OF post_json_simps(1) post_json_is_json
        nonempty rejected post_json_simps(4), of both_configured]
    by simp
qed

text \<open>
  C10. A POST request with a JSON content type whose body, read to its end, is the
  text \<^verbatim>\<open>null\<close>:
  \<^verbatim>\<open>JSON.parse\<close> returns null, the destructuring of line 40 throws a TypeError, and
  the catch of line 133 answers 500 with \<^verbatim>\<open>{error: "Internal server error"}\<close>. The
  check of line 42 is not reached, so the answer is not the 400 of a falsy \<^verbatim>\<open>text\<close>.
\<close>

theorem null_body_internal_error:
  assumes "req_method req = ''POST''"
    and "str_includes (contentType req) ''application/json''"
    and "toString_utf8 p (concat (chunks req)) = ''null''"
    and "JSON_parse p ''null'' = Inr JNull"
    and body_read: "stream_error req = None"
  shows "handler_io e p req =
     (Inr \<lparr>status = 500, headers = [],
           payload = Json [(''error'', ''Internal server error''),
                           (''details'', take 300 (String_err (destructure_error ''null'')))]\<rparr>,
      [ReadBody, ConsoleError [LStr ''voice.js error'', LErr (destructure_error ''null'')]])
     \<and> (\<forall>resp. fst (handler_io e p req) = Inr resp \<longrightarrow> status resp \<noteq> 400)"
proof -
  have "JSON_parse p (bodyText p (concat (chunks req))) = Inr JNull"
    using assms(3,4) by (simp add: bodyText_def)
  then have "json_branch e p (concat (chunks req)) = (Inl (destructure_error ''null''), [])"
    by (intro json_branch_throws) simp
  then have "handler_io e p req =
     (Inr \<lparr>status = 500, headers = [],
           payload = Json [(''error'', ''Internal server error''),
                           (''details'', take 300 (String_err (destructure_error ''null'')))]\<rparr>,
      [ReadBody, ConsoleError [LStr ''voice.js error'', LErr (destructure_error ''null'')]])"
    using assms(2)
    by (simp add: handler_post [OF assms(1) body_read] json_response_def substring0_def)
  then show ?thesis by simp
qed

theorem null_body_internal_error_witness:
  "fst (handler_io both_configured example_platform (post_json ''null'')) =
     Inr \<lparr>status = 500, headers = [],
          payload = Json [(''error'', ''Internal server error''),
            (''details'',
             ''TypeError: Cannot destructure property 'text' of 'body' as it is null.'')]\<rparr>"
proof -
  have decoded: "toString_utf8 example_platform (concat (chunks (post_json ''null''))) = ''null''"
    by (simp add: post_json_simps toString_ascii)
  show ?thesis
    using null_body_internal_error [OF post_json_simps(1) post_json_is_json decoded
        example_parse_simps(2) post_json_simps(4), of both_configured]
    by (simp add: destructure_error_def)
qed

text \<open>
  C7. A JSON request whose body is read to its end and that is routed to the TTS
  provider with an API key configured: the
  one upstream call is a POST to the TTS URL with the headers
  \<^verbatim>\<open>Content-Type: application/json\<close> and \<^verbatim>\<open>Authorization: Bearer <key>\<close> and the
  body \<^verbatim>\<open>JSON.stringify({input: {text}, audio: {encoding: 'LINEAR16',
  sampleRateHertz: 24000}})\<close>. The call is the same whatever \<^verbatim>\<open>language\<close> the request
  carries: the value does not occur in it.
\<close>

theorem tts_request_shape:
  assumes "req_method req = ''POST''"
    and "str_includes (contentType req) ''application/json''"
    and "JSON_parse p (bodyText p (concat (chunks req))) = Inr parsed"
    and "destructure parsed = Inr (text, language, mode)"
    and "truthy text"
    and "\<not> (mode = JStr ''cloned'' \<and> RVC_SERVER_URL e \<noteq> [])"
    and "GEMINI_API_KEY e \<noteq> []"
    and body_read: "stream_error req = None"
  shows "fetches (snd (handler_io e p req)) =
     [(Gemini_TTS,
       \<lparr>url = GEMINI_TTS_URL e,
        fetch_method = ''POST'',
        fetch_headers =
          [(''Content-Type'', ''application/json''),
           (''Authorization'', ''Bearer '' @ GEMINI_API_KEY e)],
        body = JSON_stringify (JObj
          [(''input'', JObj [(''text'', text)]),
           (''audio'', JObj [(''encoding'', JStr ''LINEAR16''),
                            (''sampleRateHertz'', JNum (Finite 24000))])])\<rparr>)]"
proof -
  have "json_branch e p (concat (chunks req)) = gemini_tts e p text"
    using json_branch_parsed [OF assms(3,4), of e] assms(5,6,7) by auto
  then show ?thesis
    using assms(2) by (simp add: handler_post_fetches [OF assms(1) body_read] gemini_tts_fetches)
qed

theorem tts_request_shape_witness:
  "fetches (snd (handler_io tts_only example_platform
      (post_json ''{\"text\":\"hi\",\"language\":\"fr\",\"mode\":\"normal\"}''))) =
     [(Gemini_TTS,
       \<lparr>url = ''https://api.generativeai.googleapis.com/v1beta2/speech:generate'',
        fetch_method = ''POST'',
        fetch_headers =
          [(''Content-Type'', ''application/json''),
           (''Authorization'', ''Bearer secret'')],
        body = JSON_stringify (JObj
          [(''input'', JObj [(''text'', JStr ''hi'')]),
           (''audio'', JObj [(''encoding'', JStr ''LINEAR16''),
                            (''sampleRateHertz'', JNum (Finite 24000))])])\<rparr>)]"
proof -
  have parsed: "JSON_parse example_platform
      (bodyText example_platform (concat (chunks
         (post_json ''{\"text\":\"hi\",\"language\":\"fr\",\"mode\":\"normal\"}'')))) =
      Inr (JObj [(''text'', JStr ''hi''), (''language'', JStr ''fr''), (''mode'', JStr ''normal'')])"
    by (simp add: post_json_simps bodyText_ascii example_parse_simps)
  have t: "truthy (JStr ''hi'')" by simp
  have route: "\<not> (JStr ''normal'' = JStr ''cloned'' \<and> RVC_SERVER_URL tts_only \<noteq> [])"
    by simp
  have key: "GEMINI_API_KEY tts_only \<noteq> []"
    by (simp add: example_env_simps)
  show ?thesis
    using tts_request_shape [OF post_json_simps(1) post_json_is_json parsed
        destructure_examples(2) t route key post_json_simps(4)]
    by (simp add: example_env_simps)
qed

text \<open>
  C3. When the upstream call of a run is answered with a status outside 200 to 299 and
  the text of that answer is \<open>t\<close>, the handler responds 502 with a JSON body whose
  \<^verbatim>\<open>error\<close> names the call that failed and whose \<^verbatim>\<open>details\<close> is \<open>t\<close> cut to its
  first 200 characters for the two calls to the cloning server (lines 60 and 125) and to
  its first 300 characters for the call to the TTS provider (line 95).
\<close>

theorem upstream_failure_502:
  assumes "(site, q) \<in> set (fetches (snd (handler_io e p req)))"
    and "fetch p q = Inr r"
    and "\<not> (200 \<le> r_status r \<and> r_status r \<le> 299)"
    and "r_text r = Inr t"
  shows "(site = RVC_synth \<longrightarrow>
            fst (handler_io e p req) =
              Inr \<lparr>status = 502, headers = [],
                   payload = Json [(''error'', ''RVC synth failed''),
                                   (''details'', take 200 t)]\<rparr>)
       \<and> (site = Gemini_TTS \<longrightarrow>
            fst (handler_io e p req) =
              Inr \<lparr>status = 502, headers = [],
                   payload = Json [(''error'', ''Gemini TTS failed''),
                                   (''details'', take 300 t)]\<rparr>)
       \<and> (site = RVC_audio \<longrightarrow>
            fst (handler_io e p req) =
              Inr \<lparr>status = 502, headers = [],
                   payload = Json [(''error'', ''RVC audio processing failed''),
                                   (''details'', take 200 t)]\<rparr>)"
proof -
  from handler_calls [of e p req] assms(1)
  obtain site' q' where one: "fetches (snd (handler_io e p req)) = [(site', q')]"
    and outcome: "fst (handler_io e p req) =
          Inr (case fetch p q' of
             Inl err \<Rightarrow>
               json_response 500
                 [(''error'', ''Internal server error''),
                  (''details'', substring0 300 (String_err err))]
           | Inr r \<Rightarrow>
               if \<not> ok r then
                 (case r_text r of
                    Inl err \<Rightarrow>
                      json_response 500
                        [(''error'', ''Internal server error''),
                         (''details'', substring0 300 (String_err err))]
                  | Inr t \<Rightarrow> json_response 502
                      [(''error'',
                        (case site' of
                           RVC_synth \<Rightarrow> ''RVC synth failed''
                         | Gemini_TTS \<Rightarrow> ''Gemini TTS failed''
                         | RVC_audio \<Rightarrow> ''RVC audio processing failed'')),
                       (''details'',
                        substring0 (case site' of Gemini_TTS \<Rightarrow> 300 | _ \<Rightarrow> 200) t)])
               else (case r_arrayBuffer r of
                       Inl err \<Rightarrow>
                         json_response 500
                           [(''error'', ''Internal server error''),
                            (''details'', substring0 300 (String_err err))]
                     | Inr ab \<Rightarrow> audio_response ab))"
    by auto
  from one assms(1) have same: "site' = site" "q' = q" by simp_all
  have failed: "\<not> ok r" using assms(3) by (simp add: ok_def)
  show ?thesis
    unfolding outcome same using assms(2,4) failed
    by (simp add: json_response_def substring0_def)
qed

theorem upstream_failure_502_witness:
  "fst (handler_io both_configured example_platform (post_json ''{\"text\":\"hi\"}'')) =
     Inr \<lparr>status = 502, headers = [],
          payload = Json [(''error'', ''RVC synth failed''), (''details'', ''boom'')]\<rparr>
   \<and> fst (handler_io tts_only example_platform
        (post_json ''{\"text\":\"hi\",\"language\":\"fr\",\"mode\":\"normal\"}'')) =
     Inr \<lparr>status = 502, headers = [],
          payload = Json [(''error'', ''Gemini TTS failed''), (''details'', ''quota'')]\<rparr>
   \<and> fst (handler_io both_configured example_platform audio_request) =
     Inr \<lparr>status = 502, headers = [],
          payload = Json [(''error'', ''RVC audio processing failed''),
                          (''details'', ''boom'')]\<rparr>"
proof -
  have s500: "\<not> (200 \<le> r_status \<lparr>r_status = 500, r_text = Inr ''boom'', r_arrayBuffer = Inr []\<rparr>
      \<and> r_status \<lparr>r_status = 500, r_text = Inr ''boom'', r_arrayBuffer = Inr []\<rparr> \<le> 299)"
    by simp
  have s429: "\<not> (200 \<le> r_status \<lparr>r_status = 429, r_text = Inr ''quota'', r_arrayBuffer = Inr []\<rparr>
      \<and> r_status \<lparr>r_status = 429, r_text = Inr ''quota'', r_arrayBuffer = Inr []\<rparr> \<le> 299)"
    by simp
  have t500: "r_text \<lparr>r_status = 500, r_text = Inr ''boom'', r_arrayBuffer = Inr []\<rparr> = Inr ''boom''"
    by simp
  have t429: "r_text \<lparr>r_status = 429, r_text = Inr ''quota'', r_arrayBuffer = Inr []\<rparr> = Inr ''quota''"
    by simp
  have m1: "(RVC_synth,
       \<lparr>url = ''https://gpu.example.com/synthesize'',
        fetch_method = ''POST'',
        fetch_headers = [(''Content-Type'', ''application/json'')],
        body = JSON_stringify (JObj [(''text'', JStr ''hi''), (''language'', JStr ''en'')])\<rparr>)
      \<in> set (fetches (snd (handler_io both_configured example_platform
            (post_json ''{\"text\":\"hi\"}''))))"
    by (simp add: example_run_cloned)
  have m2: "(Gemini_TTS,
       \<lparr>url = ''https://api.generativeai.googleapis.com/v1beta2/speech:generate'',
        fetch_method = ''POST'',
        fetch_headers =
          [(''Content-Type'', ''application/json''),
           (''Authorization'', ''Bearer secret'')],
        body = JSON_stringify (JObj
          [(''input'', JObj [(''text'', JStr ''hi'')]),
           (''audio'', JObj [(''encoding'', JStr ''LINEAR16''),
                            (''sampleRateHertz'', JNum (Finite 24000))])])\<rparr>)
      \<in> set (fetches (snd (handler_io tts_only example_platform
            (post_json ''{\"text\":\"hi\",\"language\":\"fr\",\"mode\":\"normal\"}''))))"
    by (simp add: example_run_tts)
  have m3: "(RVC_audio,
       \<lparr>url = ''https://gpu.example.com/synthesize'',
        fetch_method = ''POST'',
        fetch_headers = [(''Content-Type'', ''audio/wav'')],
        body = Raw (ascii ''RIFF'')\<rparr>)
      \<in> set (fetches (snd (handler_io both_configured example_platform audio_request)))"
    by (simp add: example_run_audio)
  from upstream_failure_502 [OF m1 example_fetch_simps(1) s500 t500]
  have "fst (handler_io both_configured example_platform (post_json ''{\"text\":\"hi\"}'')) =
     Inr \<lparr>status = 502, headers = [],
          payload = Json [(''error'', ''RVC synth failed''), (''details'', ''boom'')]\<rparr>"
    by simp
  moreover from upstream_failure_502 [OF m2 example_fetch_simps(2) s429 t429]
  have "fst (handler_io tts_only example_platform
        (post_json ''{\"text\":\"hi\",\"language\":\"fr\",\"mode\":\"normal\"}'')) =
     Inr \<lparr>status = 502, headers = [],
          payload = Json [(''error'', ''Gemini TTS failed''), (''details'', ''quota'')]\<rparr>"
    by simp
  moreover from upstream_failure_502 [OF m3 example_fetch_simps(1) s500 t500]
  have "fst (handler_io both_configured example_platform audio_request) =
     Inr \<lparr>status = 502, headers = [],
          payload = Json [(''error'', ''RVC audio processing failed''),
                          (''details'', ''boom'')]\<rparr>"
    by simp
  ultimately show ?thesis by blast
qed

text \<open>
  C9. No run makes more than one upstream call, so a call to the cloning server and a
  call to the TTS provider never occur in the same run; and a run that ends in a
  rejection (405, 400, or the 500 of line 72 for missing configuration) makes none.
\<close>

theorem at_most_one_upstream_call:
  "length (fetches (snd (handler_io e p req))) \<le> 1
   \<and> (\<forall>q q' site. (Gemini_TTS, q) \<in> set (fetches (snd (handler_io e p req))) \<longrightarrow>
          (site, q') \<in> set (fetches (snd (handler_io e p req))) \<longrightarrow> site = Gemini_TTS)
   \<and> (\<forall>resp. fst (handler_io e p req) = Inr resp \<longrightarrow>
          (status resp = 405 \<or> status resp = 400
           \<or> (status resp = 500 \<and>
               payload resp = Json [(''error'',
                 ''No RVC_SERVER_URL or GEMINI_API_KEY configured'')])) \<longrightarrow>
          fetches (snd (handler_io e p req)) = [])"
proof -
  from handler_calls [of e p req]
  consider (none) "fetches (snd (handler_io e p req)) = []"
    | (one) site q where "fetches (snd (handler_io e p req)) = [(site, q)]"
        and "fst (handler_io e p req) =
          Inr (case fetch p q of
             Inl err \<Rightarrow>
               json_response 500
                 [(''error'', ''Internal server error''),
                  (''details'', substring0 300 (String_err err))]
           | Inr r \<Rightarrow>
               if \<not> ok r then
                 (case r_text r of
                    Inl err \<Rightarrow>
                      json_response 500
                        [(''error'', ''Internal server error''),
                         (''details'', substring0 300 (String_err err))]
                  | Inr t \<Rightarrow> json_response 502
                      [(''error'',
                        (case site of
                           RVC_synth \<Rightarrow> ''RVC synth failed''
                         | Gemini_TTS \<Rightarrow> ''Gemini TTS failed''
                         | RVC_audio \<Rightarrow> ''RVC audio processing failed'')),
                       (''details'',
                        substring0 (case site of Gemini_TTS \<Rightarrow> 300 | _ \<Rightarrow> 200) t)])
               else (case r_arrayBuffer r of
                       Inl err \<Rightarrow>
                         json_response 500
                           [(''error'', ''Internal server error''),
                            (''details'', substring0 300 (String_err err))]
                     | Inr ab \<Rightarrow> audio_response ab))"
    by blast
  then show ?thesis
  proof cases
    case none
    then show ?thesis by simp
  next
    case one
    from one(2) have "status resp \<noteq> 405 \<and> status resp \<noteq> 400
        \<and> payload resp \<noteq> Json [(''error'', ''No RVC_SERVER_URL or GEMINI_API_KEY configured'')]"
      if "fst (handler_io e p req) = Inr resp" for resp
      using that
      by (auto simp add: json_response_def audio_response_def split: sum.splits if_splits)
    with one(1) show ?thesis by auto
  qed
qed

theorem at_most_one_upstream_call_witness:
  "length (fetches (snd (handler_io both_configured example_platform
      (post_json ''{\"text\":\"hi\"}'')))) \<le> 1
   \<and> fetches (snd (handler_io both_configured example_platform (post_json ''{}''))) = []"
proof -
  have parsed: "JSON_parse example_platform (bodyText example_platform (ascii ''{}'')) =
      Inr (JObj [])"
    by (simp add: bodyText_ascii example_parse_simps)
  from json_branch_parsed [OF this destructure_examples(3), of both_configured]
  have "json_branch both_configured example_platform (ascii ''{}'') =
      return_io (json_response 400 [(''error'', ''Missing text field in JSON body'')])"
    by simp
  then have rejected: "fst (handler_io both_configured example_platform (post_json ''{}'')) =
      Inr (json_response 400 [(''error'', ''Missing text field in JSON body'')])"
    by (simp add: handler_post_fst [OF post_json_simps(1,4)] post_json_is_json post_json_simps
        return_io_def)
  have "status (json_response 400 [(''error'', ''Missing text field in JSON body'')]) = 400"
    by (simp add: json_response_def)
  with rejected
    at_most_one_upstream_call [of both_configured example_platform "post_json ''{}''"]
  have "fetches (snd (handler_io both_configured example_platform (post_json ''{}''))) = []"
    by blast
  with at_most_one_upstream_call [of both_configured example_platform
      "post_json ''{\"text\":\"hi\"}''"]
  show ?thesis by blast
qed

text \<open>
  C2, as amended. A POST request whose content type (lower-cased, line 31) does not
  contain \<^verbatim>\<open>application/json\<close>, with the cloning server URL configured: an
  upstream call of the run is a POST to the \<^verbatim>\<open>/synthesize\<close> endpoint whose body is
  the concatenation of the inbound chunks, byte for byte, and whose \<^verbatim>\<open>Content-Type\<close>
  is the inbound header, or \<^verbatim>\<open>application/octet-stream\<close> when the inbound header is
  absent or empty; and when the body arrives, the run makes exactly this call.
\<close>

theorem raw_body_forwarded:
  assumes "req_method req = ''POST''"
    and "\<not> str_includes (contentType req) ''application/json''"
    and "RVC_SERVER_URL e \<noteq> []"
  shows "(stream_error req = None \<longrightarrow>
            fetches (snd (handler_io e p req)) =
              [(RVC_audio,
                \<lparr>url = strip_trailing_slash (RVC_SERVER_URL e) @ ''/synthesize'',
                 fetch_method = ''POST'',
                 fetch_headers =
                   [(''Content-Type'',
                     (case content_type req of
                        None \<Rightarrow> ''application/octet-stream''
                      | Some ct \<Rightarrow> if ct = [] then ''application/octet-stream'' else ct))],
                 body = Raw (concat (chunks req))\<rparr>)])
       \<and> (\<forall>site q. (site, q) \<in> set (fetches (snd (handler_io e p req))) \<longrightarrow>
            site = RVC_audio
            \<and> q = \<lparr>url = strip_trailing_slash (RVC_SERVER_URL e) @ ''/synthesize'',
                    fetch_method = ''POST'',
                    fetch_headers =
                      [(''Content-Type'',
                        (case content_type req of
                           None \<Rightarrow> ''application/octet-stream''
                         | Some ct \<Rightarrow> if ct = [] then ''application/octet-stream'' else ct))],
                    body = Raw (concat (chunks req))\<rparr>)"
proof (cases "stream_error req")
  case None
  have "or_default (content_type req) ''application/octet-stream'' =
      (case content_type req of
         None \<Rightarrow> ''application/octet-stream''
       | Some ct \<Rightarrow> if ct = [] then ''application/octet-stream'' else ct)"
    by (cases "content_type req") simp_all
  then have "fetches (snd (handler_io e p req)) =
      [(RVC_audio,
        \<lparr>url = strip_trailing_slash (RVC_SERVER_URL e) @ ''/synthesize'',
         fetch_method = ''POST'',
         fetch_headers =
           [(''Content-Type'',
             (case content_type req of
                None \<Rightarrow> ''application/octet-stream''
              | Some ct \<Rightarrow> if ct = [] then ''application/octet-stream'' else ct))],
         body = Raw (concat (chunks req))\<rparr>)]"
    using assms(2,3)
    by (simp add: handler_post_fetches [OF assms(1) None] raw_branch_fetches synthesize_url_def)
  then show ?thesis by simp
next
  case (Some err)
  have "fetches (snd (handler_io e p req)) = []"
    by (simp add: handler_post_aborted [OF assms(1) Some])
  with Some show ?thesis by simp
qed

theorem raw_body_forwarded_witness:
  "fetches (snd (handler_io both_configured example_platform audio_request)) =
     [(RVC_audio,
       \<lparr>url = ''https://gpu.example.com/synthesize'',
        fetch_method = ''POST'',
        fetch_headers = [(''Content-Type'', ''audio/wav'')],
        body = Raw (ascii ''RIFF'')\<rparr>)]"
proof -
  have configured: "RVC_SERVER_URL both_configured \<noteq> []"
    by (simp add: example_env_simps)
  note run = raw_body_forwarded [OF audio_request_simps(1) audio_request_simps(4) configured,
      of example_platform]
  from run [THEN conjunct1, rule_format, OF audio_request_simps(5)]
  show ?thesis
    by (simp add: audio_request_simps example_env_simps strip_trailing_slash_def)
qed

text \<open>
  C2, as stated, fails when the inbound header is present and empty: the request is not
  JSON, the cloning server is configured, and the outbound \<^verbatim>\<open>Content-Type\<close> is
  \<^verbatim>\<open>application/octet-stream\<close>, not the inbound value.
\<close>

theorem empty_content_type_counterexample:
  "req_method empty_header_request = ''POST''
   \<and> \<not> str_includes (contentType empty_header_request) ''application/json''
   \<and> RVC_SERVER_URL both_configured \<noteq> []
   \<and> content_type empty_header_request = Some ''''
   \<and> map (fetch_headers \<circ> snd)
        (fetches (snd (handler_io both_configured example_platform empty_header_request))) =
      [[(''Content-Type'', ''application/octet-stream'')]]
   \<and> map (fetch_headers \<circ> snd)
        (fetches (snd (handler_io both_configured example_platform empty_header_request))) \<noteq>
      [[(''Content-Type'', '''')]]"
  by (simp add: handler_post_fetches [OF empty_header_request_simps(1,5)]
      empty_header_request_simps raw_branch_fetches example_env_simps)

text \<open>
  C5, as amended. A POST request whose content type (lower-cased, line 31) does not
  contain \<^verbatim>\<open>application/json\<close>: when the cloning server URL is not configured and
  the request body is read to its end, the answer is 400 with the message of line 108
  and nothing but the body read happens; and under every configuration, whether the
  body arrives or not, no call to the TTS provider is made.
\<close>

theorem raw_never_reaches_tts:
  assumes "req_method req = ''POST''"
    and "\<not> str_includes (contentType req) ''application/json''"
  shows "(RVC_SERVER_URL e = [] \<longrightarrow> stream_error req = None \<longrightarrow>
            handler_io e p req =
              (Inr \<lparr>status = 400, headers = [],
                    payload = Json [(''error'',
                      ''This endpoint received audio, but RVC_SERVER_URL is not set. Set RVC_SERVER_URL to forward audio.'')]\<rparr>,
               [ReadBody]))
       \<and> (\<forall>q. (Gemini_TTS, q) \<notin> set (fetches (snd (handler_io e p req))))"
proof (intro conjI impI allI)
  assume unset: "RVC_SERVER_URL e = []" and body_read: "stream_error req = None"
  from unset have "raw_branch e p req (concat (chunks req)) =
      return_io (json_response 400
        [(''error'', ''This endpoint received audio, but RVC_SERVER_URL is not set. Set RVC_SERVER_URL to forward audio.'')])"
    by (simp add: raw_branch_def)
  then show "handler_io e p req =
      (Inr \<lparr>status = 400, headers = [],
            payload = Json [(''error'',
              ''This endpoint received audio, but RVC_SERVER_URL is not set. Set RVC_SERVER_URL to forward audio.'')]\<rparr>,
       [ReadBody])"
    using assms(2)
    by (simp add: handler_post [OF assms(1) body_read] return_io_def json_response_def)
next
  fix q
  show "(Gemini_TTS, q) \<notin> set (fetches (snd (handler_io e p req)))"
  proof (cases "stream_error req")
    case None
    then show ?thesis
      using assms(2) by (simp add: handler_post_fetches [OF assms(1) None] raw_branch_fetches)
  next
    case (Some err)
    then show ?thesis
      by (simp add: handler_post_aborted [OF assms(1) Some])
  qed
qed

theorem raw_never_reaches_tts_witness:
  "handler_io tts_only example_platform audio_request =
     (Inr \<lparr>status = 400, headers = [],
           payload = Json [(''error'',
             ''This endpoint received audio, but RVC_SERVER_URL is not set. Set RVC_SERVER_URL to forward audio.'')]\<rparr>,
      [ReadBody])
   \<and> GEMINI_API_KEY tts_only = ''secret''"
  using raw_never_reaches_tts [OF audio_request_simps(1) audio_request_simps(4),
      of tts_only example_platform]
  by (simp add: example_env_simps audio_request_simps)

text \<open>
  C5, as stated, fails when the request stream breaks off: the content type is not JSON
  and no cloning server is configured, yet the read of line 34 throws inside the try,
  line 107 is not reached, and the catch of line 133 answers 500, not 400.
\<close>

theorem aborted_upload_counterexample:
  "req_method aborted_request = ''POST''
   \<and> \<not> str_includes (contentType aborted_request) ''application/json''
   \<and> RVC_SERVER_URL tts_only = []
   \<and> handler_io tts_only example_platform aborted_request =
       (Inr \<lparr>status = 500, headers = [],
             payload = Json [(''error'', ''Internal server error''),
                             (''details'', ''Error: aborted'')]\<rparr>,
        [ReadBody,
         ConsoleError [LStr ''voice.js error'', LErr (JsError ''Error'' ''aborted'')]])
   \<and> fst (handler_io tts_only example_platform aborted_request) \<noteq>
       Inr \<lparr>status = 400, headers = [],
            payload = Json [(''error'',
              ''This endpoint received audio, but RVC_SERVER_URL is not set. Set RVC_SERVER_URL to forward audio.'')]\<rparr>"
  by (simp add: handler_post_aborted [OF aborted_request_simps(1,3)] aborted_request_simps
      example_env_simps json_response_def substring0_def)

end
